theory Spec2Isabelle
  imports Complex_Main
begin

section \<open>Data model\<close>

text \<open>
  The interfaces of \<^verbatim>\<open>ProcessingScreen.tsx\<close> and \<^verbatim>\<open>ReportScreen.tsx\<close>.
  A JavaScript \<^verbatim>\<open>number\<close> is modelled as a real: the development reasons about the
  arithmetic the code writes down, not about IEEE rounding. Overflow to infinity and NaN
  are modelled apart, for the smoothness path and the clamp, in the section on numbers
  with special values.
\<close>

record DrawingPoint =
  x :: real
  y :: real
  t :: real

record SpiralParams =
  a :: real
  b :: real

record QuestionnaireData =
  age :: string
  hasMovementDisorder :: string
  disorderType :: string

text \<open>
  The object literal stored under \<^verbatim>\<open>features.metrics\<close>. The three rendered entries
  hold the value of the decimal string that \<^verbatim>\<open>toFixed(2)\<close> prints.
\<close>

record Metrics =
  Total_points :: nat
  Total_time_ms :: real
  Average_variation :: real
  Average_distance :: real
  Spiral_deviation :: real

record Features =
  metrics :: Metrics

record ScoreData =
  spiral_id :: int
  severity_score :: real
  classification :: string
  features :: Features

text \<open>
  What the scorer reads from outside its arguments: the clock (\<^verbatim>\<open>Date.now()\<close>) and
  one draw of \<^verbatim>\<open>Math.random()\<close>, a number in the half-open interval from 0 to 1.
\<close>

record Env =
  Date_now :: int
  Math_random :: real

section \<open>Library functions of the host language\<close>

text \<open>\<^verbatim>\<open>Math.atan2(yv, xv)\<close>: the angle of the point \<open>(xv, yv)\<close>, in \<open>(-\<pi>, \<pi>]\<close>.\<close>

definition atan2 :: "real \<Rightarrow> real \<Rightarrow> real" where
  "atan2 yv xv =
     (if 0 < xv then arctan (yv / xv)
      else if xv < 0 \<and> 0 \<le> yv then arctan (yv / xv) + pi
      else if xv < 0 \<and> yv < 0 then arctan (yv / xv) - pi
      else if 0 < yv then pi / 2
      else if yv < 0 then - (pi / 2)
      else 0)"

text \<open>
  \<^verbatim>\<open>v.toFixed(2)\<close>: the nearest multiple of 1/100, the larger one on a tie, the sign
  handled apart. The result is the number the printed string denotes (the exponent
  notation that \<^verbatim>\<open>toFixed\<close> switches to from \<open>10^21\<close> on is left out).
\<close>

definition toFixed2 :: "real \<Rightarrow> real" where
  "toFixed2 v =
     (if v < 0 then - (of_int \<lfloor>(- v) * 100 + 1 / 2\<rfloor> / 100)
      else of_int \<lfloor>v * 100 + 1 / 2\<rfloor> / 100)"

section \<open>ReportScreen: classification of a score\<close>

definition getSeverityClassification :: "real \<Rightarrow> string" where
  "getSeverityClassification score =
     (if score < 0.3 then ''Normal''
      else if score < 1.0 then ''Mild''
      else if score < 2.0 then ''Moderate''
      else ''Severe'')"

text \<open>
  \<^verbatim>\<open>calculateSmoothness\<close>, the label of the report's smoothness card. Its loop starts
  at index 2, skips a step whose first segment has length zero, and the sum is divided
  by the number of points.
\<close>

function calculateSmoothness_loop :: "DrawingPoint list \<Rightarrow> nat \<Rightarrow> real \<Rightarrow> real" where
  "calculateSmoothness_loop drawingData i variations =
     (if i < length drawingData then
        let dx1 = x (drawingData ! (i - 1)) - x (drawingData ! (i - 2));
            dy1 = y (drawingData ! (i - 1)) - y (drawingData ! (i - 2));
            dx2 = x (drawingData ! i) - x (drawingData ! (i - 1));
            dy2 = y (drawingData ! i) - y (drawingData ! (i - 1));
            dist1 = sqrt (dx1 * dx1 + dy1 * dy1);
            dist2 = sqrt (dx2 * dx2 + dy2 * dy2)
        in calculateSmoothness_loop drawingData (Suc i)
             (if 0 < dist1 then variations + \<bar>dist2 - dist1\<bar> else variations)
      else variations)"
  by pat_completeness auto
termination
  by (relation "measure (\<lambda>(drawingData, i, acc). length drawingData - i)") auto

declare calculateSmoothness_loop.simps [simp del]

definition calculateSmoothness :: "DrawingPoint list \<Rightarrow> string" where
  "calculateSmoothness drawingData =
     (if length drawingData < 3 then ''N/A''
      else
        let variations = calculateSmoothness_loop drawingData 2 0;
            avgVar = variations / real (length drawingData)
        in if avgVar < 2 then ''Excellent''
           else if avgVar < 5 then ''Good''
           else if avgVar < 10 then ''Fair''
           else ''Variable'')"

section \<open>SpiralCanvas: the reference spiral\<close>

text \<open>
  One vertex of \<^verbatim>\<open>drawReferenceSpiral\<close>: the point of the curve
  \<open>radius = a + b * angle\<close> at \<open>angle\<close>, about the centre \<open>(centerX, centerY)\<close>.
\<close>

definition referenceSpiralPoint :: "real \<Rightarrow> real \<Rightarrow> SpiralParams \<Rightarrow> real \<Rightarrow> real \<times> real" where
  "referenceSpiralPoint centerX centerY params angle =
     (let radius = a params + b params * angle
      in (centerX + radius * cos angle, centerY + radius * sin angle))"

text \<open>
  What \<^verbatim>\<open>drawReferenceSpiral\<close> returns for a canvas of the given size: the spiral
  starts at the centre (\<open>a = 0\<close>) and reaches 0.35 of the shorter side after 3 turns.
  The curve itself is drawn about \<open>(width / 2, height / 2)\<close>.
\<close>

definition drawReferenceSpiral :: "real \<Rightarrow> real \<Rightarrow> SpiralParams" where
  "drawReferenceSpiral width height =
     (let maxRadius = min width height * 0.35;
          turns = 3;
          totalAngle = turns * 2 * pi
      in \<lparr>a = 0, b = maxRadius / totalAngle\<rparr>)"

section \<open>ProcessingScreen: the demo scorer\<close>

subsection \<open>Smoothness loop\<close>

text \<open>
  \<^verbatim>\<open>for (let i = 1; i < spiralPoints.length; i++)\<close>, carrying the two accumulators
  \<^verbatim>\<open>variations\<close> and \<^verbatim>\<open>totalDistance\<close>. Every read is in range: \<open>i < length\<close>,
  \<open>1 \<le> i\<close>, and \<open>i - 2\<close> is read only when \<open>1 < i\<close>.
\<close>

function smoothness_loop ::
  "DrawingPoint list \<Rightarrow> nat \<Rightarrow> real \<times> real \<Rightarrow> real \<times> real" where
  "smoothness_loop spiralPoints i (variations, totalDistance) =
     (if i < length spiralPoints then
        let dx = x (spiralPoints ! i) - x (spiralPoints ! (i - 1));
            dy = y (spiralPoints ! i) - y (spiralPoints ! (i - 1));
            dist = sqrt (dx * dx + dy * dy);
            totalDistance' = totalDistance + dist;
            variations' =
              (if 1 < i then
                 let prevDx = x (spiralPoints ! (i - 1)) - x (spiralPoints ! (i - 2));
                     prevDy = y (spiralPoints ! (i - 1)) - y (spiralPoints ! (i - 2));
                     prevDist = sqrt (prevDx * prevDx + prevDy * prevDy)
                 in variations + \<bar>dist - prevDist\<bar>
               else variations)
        in smoothness_loop spiralPoints (Suc i) (variations', totalDistance')
      else (variations, totalDistance))"
  by pat_completeness auto
termination
  by (relation "measure (\<lambda>(spiralPoints, i, acc). length spiralPoints - i)") auto

declare smoothness_loop.simps [simp del]

definition avgVariation :: "DrawingPoint list \<Rightarrow> real" where
  "avgVariation spiralPoints =
     fst (smoothness_loop spiralPoints 1 (0, 0))
       / of_int (max 1 (int (length spiralPoints) - 2))"

definition avgDistance :: "DrawingPoint list \<Rightarrow> real" where
  "avgDistance spiralPoints =
     snd (smoothness_loop spiralPoints 1 (0, 0))
       / of_int (max 1 (int (length spiralPoints) - 1))"

subsection \<open>Deviation loop\<close>

text \<open>
  \<^verbatim>\<open>for (let i = 0; i < Math.min(100, spiralPoints.length); i++)\<close>. The centre the
  code subtracts is \<^verbatim>\<open>spiralParams.a\<close> on both axes.
\<close>

function deviation_loop ::
  "DrawingPoint list \<Rightarrow> SpiralParams \<Rightarrow> nat \<Rightarrow> real \<Rightarrow> real" where
  "deviation_loop spiralPoints spiralParams i deviation =
     (if i < min 100 (length spiralPoints) then
        let point = spiralPoints ! i;
            angle = atan2 (y point - a spiralParams) (x point - a spiralParams);
            idealRadius = a spiralParams + b spiralParams * angle;
            actualRadius = sqrt ((x point - a spiralParams)\<^sup>2 + (y point - a spiralParams)\<^sup>2)
        in deviation_loop spiralPoints spiralParams (Suc i)
             (deviation + \<bar>actualRadius - idealRadius\<bar>)
      else deviation)"
  by pat_completeness auto
termination
  by (relation "measure (\<lambda>(spiralPoints, spiralParams, i, acc).
        min 100 (length spiralPoints) - i)") auto

declare deviation_loop.simps [simp del]

definition deviation :: "DrawingPoint list \<Rightarrow> SpiralParams \<Rightarrow> real" where
  "deviation spiralPoints spiralParams =
     deviation_loop spiralPoints spiralParams 0 0 / real (min 100 (length spiralPoints))"

subsection \<open>Score\<close>

definition smoothnessScore :: "real \<Rightarrow> real" where
  "smoothnessScore avgVar = min (avgVar / 10) 2.0"

definition deviationScore :: "real \<Rightarrow> real" where
  "deviationScore dev = min (dev / 50) 2.0"

definition baseScore :: "real \<Rightarrow> real \<Rightarrow> real" where
  "baseScore smoothness devScore = (smoothness + devScore) / 2"

definition adjustedScore :: "QuestionnaireData \<Rightarrow> real \<Rightarrow> real" where
  "adjustedScore patientInfo base =
     (if hasMovementDisorder patientInfo = ''yes'' then base + 0.3 else base)"

definition randomFactor :: "Env \<Rightarrow> real" where
  "randomFactor env = (Math_random env - 0.5) * 0.4"

definition finalScore :: "real \<Rightarrow> real \<Rightarrow> real" where
  "finalScore adjusted rnd = max 0 (min 3 (adjusted + rnd))"

text \<open>
  \<^verbatim>\<open>calculateDemoScore\<close>. The outcome is the message given to \<^verbatim>\<open>setError\<close>
  (\<open>Inl\<close>) or the record given to \<^verbatim>\<open>onComplete\<close> (\<open>Inr\<close>). A missing
  \<^verbatim>\<open>patientInfo\<close> or \<^verbatim>\<open>spiralParams\<close> (the falsy object of the guard) is \<open>None\<close>.
  Nothing in the \<^verbatim>\<open>try\<close> block throws, so the \<^verbatim>\<open>catch\<close> branch has no case here;
  the two \<^verbatim>\<open>setTimeout\<close> delays are not modelled.
\<close>

definition calculateDemoScore ::
  "Env \<Rightarrow> QuestionnaireData option \<Rightarrow> DrawingPoint list \<Rightarrow> SpiralParams option
     \<Rightarrow> string + ScoreData" where
  "calculateDemoScore env patientInfo spiralPoints spiralParams =
     (if patientInfo = None \<or> length spiralPoints = 0 \<or> spiralParams = None then
        Inl ''Missing patient data, spiral points, or spiral parameters''
      else
        let info = the patientInfo;
            params = the spiralParams;
            totalPoints = length spiralPoints;
            totalTime = (if 0 < length spiralPoints then t (last spiralPoints) else 0);
            avgVar = avgVariation spiralPoints;
            avgDist = avgDistance spiralPoints;
            dev = deviation spiralPoints params;
            base = baseScore (smoothnessScore avgVar) (deviationScore dev);
            adjusted = adjustedScore info base;
            final = finalScore adjusted (randomFactor env)
        in Inr \<lparr> spiral_id = Date_now env,
                 severity_score = final,
                 classification = ''tremor_score_demo'',
                 features = \<lparr> metrics = \<lparr>
                   Total_points = totalPoints,
                   Total_time_ms = totalTime,
                   Average_variation = toFixed2 avgVar,
                   Average_distance = toFixed2 avgDist,
                   Spiral_deviation = toFixed2 dev \<rparr> \<rparr> \<rparr>)"

section \<open>Numbers with special values\<close>

text \<open>
  A second reading of the smoothness path and of the score, over numbers that can be
  infinite or NaN. A finite result beyond the largest double (from
  \<open>2^1024 - 2^970\<close> on, where rounding to nearest gives infinity) becomes infinite;
  the rounding of results within range and the sign of zero are not modelled. The
  special cases are those of IEEE 754 arithmetic and of \<^verbatim>\<open>Math.sqrt\<close>,
  \<^verbatim>\<open>Math.abs\<close>, \<^verbatim>\<open>Math.min\<close> and \<^verbatim>\<open>Math.max\<close>: the last two return NaN as soon
  as one argument is NaN.
\<close>

datatype js_number = Num real | PosInf | NegInf | NaN

definition js_overflow :: "real \<Rightarrow> js_number" where
  "js_overflow r =
     (if 2 ^ 1024 - 2 ^ 970 \<le> r then PosInf
      else if r \<le> - (2 ^ 1024 - 2 ^ 970) then NegInf
      else Num r)"


fun js_add :: "js_number \<Rightarrow> js_number \<Rightarrow> js_number" where
  "js_add NaN v = NaN"
| "js_add u NaN = NaN"
| "js_add PosInf NegInf = NaN"
| "js_add NegInf PosInf = NaN"
| "js_add PosInf v = PosInf"
| "js_add u PosInf = PosInf"
| "js_add NegInf v = NegInf"
| "js_add u NegInf = NegInf"
| "js_add (Num p) (Num q) = js_overflow (p + q)"




fun js_div :: "js_number \<Rightarrow> js_number \<Rightarrow> js_number" where
  "js_div NaN v = NaN"
| "js_div u NaN = NaN"
| "js_div (Num p) (Num q) =
     (if q = 0 then (if p = 0 then NaN else if 0 < p then PosInf else NegInf)
      else js_overflow (p / q))"
| "js_div (Num p) v = Num 0"
| "js_div PosInf (Num q) = (if 0 \<le> q then PosInf else NegInf)"
| "js_div NegInf (Num q) = (if 0 \<le> q then NegInf else PosInf)"
| "js_div u v = NaN"



fun Math_min :: "js_number \<Rightarrow> js_number \<Rightarrow> js_number" where
  "Math_min NaN v = NaN"
| "Math_min u NaN = NaN"
| "Math_min NegInf v = NegInf"
| "Math_min u NegInf = NegInf"
| "Math_min PosInf v = v"
| "Math_min u PosInf = u"
| "Math_min (Num p) (Num q) = Num (min p q)"

fun Math_max :: "js_number \<Rightarrow> js_number \<Rightarrow> js_number" where
  "Math_max NaN v = NaN"
| "Math_max u NaN = NaN"
| "Math_max PosInf v = PosInf"
| "Math_max u PosInf = PosInf"
| "Math_max NegInf v = v"
| "Math_max u NegInf = u"
| "Math_max (Num p) (Num q) = Num (max p q)"








section \<open>Auxiliary notions\<close>

text \<open>The Euclidean distance between two samples, as the specification's \<open>dist\<close>.\<close>

definition point_distance :: "DrawingPoint \<Rightarrow> DrawingPoint \<Rightarrow> real" where
  "point_distance p q = sqrt ((x q - x p)\<^sup>2 + (y q - y p)\<^sup>2)"

text \<open>
  What one pass of the deviation loop adds for the sample \<open>p\<close>: the distance to the
  point \<open>(a, a)\<close> against \<open>a + b * angle\<close>, the angle being the raw \<open>atan2\<close> value.
\<close>

definition point_deviation :: "SpiralParams \<Rightarrow> DrawingPoint \<Rightarrow> real" where
  "point_deviation params p =
     \<bar>sqrt ((x p - a params)\<^sup>2 + (y p - a params)\<^sup>2)
        - (a params + b params * atan2 (y p - a params) (x p - a params))\<bar>"

text \<open>
  The score of the specification's Severity Scorer, in its words: the sum of
  \<open>weight[m] * z[m]\<close> divided by the sum of \<open>|weight[m]|\<close>, over the metrics of the
  z-score table; a metric without a weight counts with weight 0.
\<close>

definition weight_of :: "(string \<rightharpoonup> real) \<Rightarrow> string \<Rightarrow> real" where
  "weight_of weights m = (case weights m of None \<Rightarrow> 0 | Some w \<Rightarrow> w)"

definition spec_severity_score :: "(string \<times> real) list \<Rightarrow> (string \<rightharpoonup> real) \<Rightarrow> real" where
  "spec_severity_score z weights =
     (\<Sum>(m, zv) \<leftarrow> z. weight_of weights m * zv) / (\<Sum>(m, zv) \<leftarrow> z. \<bar>weight_of weights m\<bar>)"

text \<open>
  The two capped metrics of the demo scorer as a z-score table, and the weights its
  \<^verbatim>\<open>(smoothnessScore + deviationScore) / 2\<close> gives them.
\<close>

definition demo_z :: "DrawingPoint list \<Rightarrow> SpiralParams \<Rightarrow> (string \<times> real) list" where
  "demo_z spiralPoints params =
     [(''smoothnessScore'', smoothnessScore (avgVariation spiralPoints)),
      (''deviationScore'', deviationScore (deviation spiralPoints params))]"

definition demo_weights :: "string \<rightharpoonup> real" where
  "demo_weights = [''smoothnessScore'' \<mapsto> 1, ''deviationScore'' \<mapsto> 1]"

section \<open>Sample inputs\<close>

definition sample_trace :: "DrawingPoint list" where
  "sample_trace =
     [\<lparr>x = 0, y = 0, t = 0\<rparr>, \<lparr>x = 3, y = 4, t = 16\<rparr>, \<lparr>x = 9, y = 12, t = 33\<rparr>]"

definition origin_trace :: "DrawingPoint list" where
  "origin_trace = [\<lparr>x = 0, y = 0, t = 0\<rparr>]"

definition flat_params :: SpiralParams where
  "flat_params = \<lparr>a = 0, b = 0\<rparr>"

definition unit_params :: SpiralParams where
  "unit_params = \<lparr>a = 0, b = 1\<rparr>"

definition patient_yes :: QuestionnaireData where
  "patient_yes = \<lparr>age = ''67'', hasMovementDisorder = ''yes'', disorderType = ''Essential Tremor''\<rparr>"

definition patient_no :: QuestionnaireData where
  "patient_no = \<lparr>age = ''67'', hasMovementDisorder = ''no'', disorderType = []\<rparr>"

definition env_mid :: Env where
  "env_mid = \<lparr>Date_now = 1767225600000, Math_random = 0.5\<rparr>"

definition env_high :: Env where
  "env_high = \<lparr>Date_now = 1767225600000, Math_random = 0.75\<rparr>"

definition env_later :: Env where
  "env_later = \<lparr>Date_now = 1767225660000, Math_random = 0.5\<rparr>"

text \<open>
  The results the scorer gives for the sample inputs (proved below); a trace of five
  points of the reference spiral of a 400 by 400 canvas, a quarter turn apart; a trace
  of four points of the spiral \<open>radius = angle\<close> about the origin, a quarter turn apart;
  and a trace with finite coordinates whose squared step overflows.
\<close>

definition offset_trace :: "DrawingPoint list" where
  "offset_trace = [\<lparr>x = 3, y = 4, t = 0\<rparr>]"

definition sample_result_yes :: ScoreData where
  "sample_result_yes =
     \<lparr> spiral_id = 1767225600000, severity_score = 37 / 60,
       classification = ''tremor_score_demo'',
       features = \<lparr> metrics = \<lparr> Total_points = 3, Total_time_ms = 33,
         Average_variation = 5, Average_distance = 7.5, Spiral_deviation = 6.67 \<rparr> \<rparr> \<rparr>"

definition origin_result :: "real \<Rightarrow> ScoreData" where
  "origin_result score =
     \<lparr> spiral_id = 1767225600000, severity_score = score,
       classification = ''tremor_score_demo'',
       features = \<lparr> metrics = \<lparr> Total_points = 1, Total_time_ms = 0,
         Average_variation = 0, Average_distance = 0, Spiral_deviation = 0 \<rparr> \<rparr> \<rparr>"

definition offset_result :: ScoreData where
  "offset_result =
     \<lparr> spiral_id = 1767225600000, severity_score = 0.05,
       classification = ''tremor_score_demo'',
       features = \<lparr> metrics = \<lparr> Total_points = 1, Total_time_ms = 0,
         Average_variation = 0, Average_distance = 0, Spiral_deviation = 5 \<rparr> \<rparr> \<rparr>"

definition duplicated_trace :: "DrawingPoint list" where
  "duplicated_trace = replicate 10 \<lparr>x = 120, y = 350, t = 0\<rparr>"

definition on_canvas_spiral :: "real \<Rightarrow> real \<Rightarrow> DrawingPoint" where
  "on_canvas_spiral angle time =
     \<lparr>x = fst (referenceSpiralPoint (400 / 2) (400 / 2) (drawReferenceSpiral 400 400) angle),
      y = snd (referenceSpiralPoint (400 / 2) (400 / 2) (drawReferenceSpiral 400 400) angle),
      t = time\<rparr>"

definition canvas_trace :: "DrawingPoint list" where
  "canvas_trace =
     [on_canvas_spiral 0 0, on_canvas_spiral (pi / 2) 250, on_canvas_spiral pi 500,
      on_canvas_spiral (3 * pi / 2) 750, on_canvas_spiral (2 * pi) 1000]"

definition quarter_turn_trace :: "DrawingPoint list" where
  "quarter_turn_trace =
     [\<lparr>x = fst (referenceSpiralPoint 0 0 unit_params 0),
       y = snd (referenceSpiralPoint 0 0 unit_params 0), t = 0\<rparr>,
      \<lparr>x = fst (referenceSpiralPoint 0 0 unit_params (pi / 2)),
       y = snd (referenceSpiralPoint 0 0 unit_params (pi / 2)), t = 250\<rparr>,
      \<lparr>x = fst (referenceSpiralPoint 0 0 unit_params pi),
       y = snd (referenceSpiralPoint 0 0 unit_params pi), t = 500\<rparr>,
      \<lparr>x = fst (referenceSpiralPoint 0 0 unit_params (3 * pi / 2)),
       y = snd (referenceSpiralPoint 0 0 unit_params (3 * pi / 2)), t = 750\<rparr>]"

definition duplicated_result :: ScoreData where
  "duplicated_result =
     \<lparr> spiral_id = 1767225600000, severity_score = 1,
       classification = ''tremor_score_demo'',
       features = \<lparr> metrics = \<lparr> Total_points = 10, Total_time_ms = 0,
         Average_variation = 0, Average_distance = 0, Spiral_deviation = 370 \<rparr> \<rparr> \<rparr>"


definition long_trace :: "DrawingPoint \<Rightarrow> DrawingPoint list" where
  "long_trace p = replicate 100 \<lparr>x = 3, y = 4, t = 0\<rparr> @ [p]"

section \<open>The loops as sums\<close>

lemma smoothness_loop_exit:
  "\<not> i < length pts \<Longrightarrow> smoothness_loop pts i (v, d) = (v, d)"
  by (subst smoothness_loop.simps) simp

lemma smoothness_loop_first:
  "Suc 0 < length pts \<Longrightarrow> smoothness_loop pts (Suc 0) (v, d) =
     smoothness_loop pts 2 (v, d + point_distance (pts ! 0) (pts ! Suc 0))"
  by (subst smoothness_loop.simps)
     (simp add: Let_def point_distance_def power2_eq_square numeral_2_eq_2)

lemma smoothness_loop_step:
  "1 < i \<Longrightarrow> i < length pts \<Longrightarrow> smoothness_loop pts i (v, d) =
     smoothness_loop pts (Suc i)
       (v + \<bar>point_distance (pts ! (i - 1)) (pts ! i)
              - point_distance (pts ! (i - 2)) (pts ! (i - 1))\<bar>,
        d + point_distance (pts ! (i - 1)) (pts ! i))"
  by (subst smoothness_loop.simps)
     (simp add: Let_def point_distance_def power2_eq_square)

lemma smoothness_loop_sums:
  "1 < i \<Longrightarrow> smoothness_loop pts i (v, d) =
     (v + (\<Sum>k = i..<length pts.
             \<bar>point_distance (pts ! (k - 1)) (pts ! k)
               - point_distance (pts ! (k - 2)) (pts ! (k - 1))\<bar>),
      d + (\<Sum>k = i..<length pts. point_distance (pts ! (k - 1)) (pts ! k)))"
proof (induction n \<equiv> "length pts - i" arbitrary: i v d)
  case 0
  then have "\<not> i < length pts" by simp
  then show ?case by (simp add: smoothness_loop_exit)
next
  case (Suc n)
  then have lt: "i < length pts" and n: "n = length pts - Suc i" by simp_all
  have split: "{i..<length pts} = insert i {Suc i..<length pts}"
    using lt by auto
  from Suc.prems have "1 < Suc i" by simp
  from Suc.hyps(1) [OF n this] show ?case
    by (simp add: smoothness_loop_step [OF Suc.prems lt] split)
qed

lemma deviation_loop_exit:
  "\<not> i < min 100 (length pts) \<Longrightarrow> deviation_loop pts prm i acc = acc"
  by (subst deviation_loop.simps) (simp only: if_False)

lemma deviation_loop_step:
  "i < min 100 (length pts) \<Longrightarrow> deviation_loop pts prm i acc =
     deviation_loop pts prm (Suc i) (acc + point_deviation prm (pts ! i))"
  by (subst deviation_loop.simps) (simp add: Let_def point_deviation_def)

lemma deviation_loop_sum:
  "deviation_loop pts prm i acc =
     acc + (\<Sum>k = i..<min 100 (length pts). point_deviation prm (pts ! k))"
proof (induction n \<equiv> "min 100 (length pts) - i" arbitrary: i acc)
  case 0
  then have ge: "\<not> i < min 100 (length pts)" by linarith
  then have "{i..<min 100 (length pts)} = {}"
    by (simp only: atLeastLessThan_empty_iff not_less)
  then show ?case by (simp only: deviation_loop_exit [OF ge] sum.empty add_0_right)
next
  case (Suc n)
  then have lt: "i < min 100 (length pts)" and n: "n = min 100 (length pts) - Suc i"
    by linarith+
  have split: "{i..<min 100 (length pts)} = insert i {Suc i..<min 100 (length pts)}"
    using lt by auto
  from Suc.hyps(1) [OF n] show ?case
    by (simp add: deviation_loop_step [OF lt] split)
qed

lemma deviation_take:
  "deviation pts prm =
     sum_list (map (point_deviation prm) (take 100 pts)) / real (length (take 100 pts))"
proof -
  have "(\<Sum>k = 0..<min 100 (length pts). point_deviation prm (pts ! k))
        = (\<Sum>k = 0..<length (take 100 pts). point_deviation prm (take 100 pts ! k))"
    by (rule sum.cong) (simp_all add: min.commute)
  also have "\<dots> = sum_list (map (point_deviation prm) (take 100 pts))"
    by (simp add: sum_list_sum_nth atLeast0LessThan)
  finally show ?thesis
    by (simp add: deviation_def deviation_loop_sum min.commute)
qed

section \<open>The scorer on the sample inputs\<close>

lemma sqrt_25: "sqrt 25 = 5"
  using real_sqrt_abs [of 5] by simp

lemma sqrt_100: "sqrt 100 = 10"
  using real_sqrt_abs [of 10] by simp

lemma sqrt_225: "sqrt 225 = 15"
  using real_sqrt_abs [of 15] by simp

lemma smoothness_loop_from_one:
  "smoothness_loop pts (Suc 0) (0, 0) =
     (\<Sum>k = 2..<length pts.
         \<bar>point_distance (pts ! (k - 1)) (pts ! k)
           - point_distance (pts ! (k - 2)) (pts ! (k - 1))\<bar>,
      \<Sum>k = 1..<length pts. point_distance (pts ! (k - 1)) (pts ! k))"
proof (cases "Suc 0 < length pts")
  case False
  then show ?thesis by (simp add: smoothness_loop_exit)
next
  case True
  then have "{Suc 0..<length pts} = insert (Suc 0) {2..<length pts}" by auto
  then show ?thesis
    by (simp add: smoothness_loop_first [OF True] smoothness_loop_sums)
qed

lemma calculateDemoScore_Inr:
  "pts \<noteq> [] \<Longrightarrow> calculateDemoScore env (Some info) pts (Some prm) =
     Inr \<lparr> spiral_id = Date_now env,
           severity_score =
             finalScore
               (adjustedScore info
                  (baseScore (smoothnessScore (avgVariation pts))
                     (deviationScore (deviation pts prm))))
               (randomFactor env),
           classification = ''tremor_score_demo'',
           features = \<lparr> metrics = \<lparr>
             Total_points = length pts,
             Total_time_ms = t (last pts),
             Average_variation = toFixed2 (avgVariation pts),
             Average_distance = toFixed2 (avgDistance pts),
             Spiral_deviation = toFixed2 (deviation pts prm) \<rparr> \<rparr> \<rparr>"
  by (simp add: calculateDemoScore_def Let_def)

lemma avgVariation_sample: "avgVariation sample_trace = 5"
  by (simp add: avgVariation_def smoothness_loop_from_one sample_trace_def
      point_distance_def sqrt_25 sqrt_100)

lemma avgDistance_sample: "avgDistance sample_trace = 15 / 2"
  by (simp add: avgDistance_def smoothness_loop_from_one sample_trace_def
      point_distance_def sqrt_25 sqrt_100)

lemma deviation_sample: "deviation sample_trace flat_params = 20 / 3"
  by (simp add: deviation_take sample_trace_def flat_params_def point_deviation_def
      sqrt_25 sqrt_225)

lemma avgVariation_single: "avgVariation [p] = 0"
  by (simp add: avgVariation_def smoothness_loop_exit)

lemma avgDistance_single: "avgDistance [p] = 0"
  by (simp add: avgDistance_def smoothness_loop_exit)

lemma deviation_origin: "deviation origin_trace flat_params = 0"
  by (simp add: deviation_take origin_trace_def flat_params_def point_deviation_def)

lemma deviation_offset: "deviation offset_trace flat_params = 5"
  by (simp add: deviation_take offset_trace_def flat_params_def point_deviation_def sqrt_25)

lemma toFixed2_sample: "toFixed2 0 = 0" "toFixed2 5 = 5" "toFixed2 (15 / 2) = 7.5"
  "toFixed2 (20 / 3) = 6.67"
  by (simp_all add: toFixed2_def)

lemma calc_sample_yes:
  "calculateDemoScore env_mid (Some patient_yes) sample_trace (Some flat_params)
     = Inr sample_result_yes"
proof -
  have "sample_trace \<noteq> []" by (simp add: sample_trace_def)
  from calculateDemoScore_Inr [OF this] show ?thesis
    by (simp add: avgVariation_sample avgDistance_sample deviation_sample toFixed2_sample
        sample_result_yes_def env_mid_def patient_yes_def smoothnessScore_def
        deviationScore_def baseScore_def adjustedScore_def randomFactor_def finalScore_def)
       (simp add: sample_trace_def)
qed

lemma calc_origin_no:
  "calculateDemoScore env_mid (Some patient_no) origin_trace (Some flat_params)
     = Inr (origin_result 0)"
proof -
  have "origin_trace \<noteq> []" by (simp add: origin_trace_def)
  from calculateDemoScore_Inr [OF this] show ?thesis
    by (simp add: deviation_origin)
       (simp add: origin_trace_def avgVariation_single avgDistance_single toFixed2_sample
        origin_result_def env_mid_def patient_no_def smoothnessScore_def
        deviationScore_def baseScore_def adjustedScore_def randomFactor_def finalScore_def)
qed

lemma calc_origin_yes:
  "calculateDemoScore env_mid (Some patient_yes) origin_trace (Some flat_params)
     = Inr (origin_result 0.3)"
proof -
  have "origin_trace \<noteq> []" by (simp add: origin_trace_def)
  from calculateDemoScore_Inr [OF this] show ?thesis
    by (simp add: deviation_origin)
       (simp add: origin_trace_def avgVariation_single avgDistance_single toFixed2_sample
        origin_result_def env_mid_def patient_yes_def smoothnessScore_def
        deviationScore_def baseScore_def adjustedScore_def randomFactor_def finalScore_def)
qed

lemma calc_origin_high:
  "calculateDemoScore env_high (Some patient_no) origin_trace (Some flat_params)
     = Inr (origin_result 0.1)"
proof -
  have "origin_trace \<noteq> []" by (simp add: origin_trace_def)
  from calculateDemoScore_Inr [OF this] show ?thesis
    by (simp add: deviation_origin)
       (simp add: origin_trace_def avgVariation_single avgDistance_single toFixed2_sample
        origin_result_def env_high_def patient_no_def smoothnessScore_def
        deviationScore_def baseScore_def adjustedScore_def randomFactor_def finalScore_def)
qed

lemma calc_offset_no:
  "calculateDemoScore env_mid (Some patient_no) offset_trace (Some flat_params)
     = Inr offset_result"
proof -
  have "offset_trace \<noteq> []" by (simp add: offset_trace_def)
  from calculateDemoScore_Inr [OF this] show ?thesis
    by (simp add: deviation_offset)
       (simp add: offset_trace_def avgVariation_single avgDistance_single toFixed2_sample
        offset_result_def env_mid_def patient_no_def smoothnessScore_def
        deviationScore_def baseScore_def adjustedScore_def randomFactor_def finalScore_def)
qed

lemma spec_severity_score_demo:
  "spec_severity_score (demo_z pts prm) demo_weights =
     baseScore (smoothnessScore (avgVariation pts)) (deviationScore (deviation pts prm))"
  by (simp add: spec_severity_score_def demo_z_def demo_weights_def weight_of_def baseScore_def)

lemma spec_severity_score_origin:
  "spec_severity_score (demo_z origin_trace flat_params) weights = 0"
  by (simp add: spec_severity_score_def demo_z_def deviation_origin smoothnessScore_def
      deviationScore_def)
     (simp add: origin_trace_def avgVariation_single)

section \<open>Facts about the deviation and the score\<close>

lemma deviation_index_sum:
  "deviation pts prm =
     (\<Sum>k<min 100 (length pts). point_deviation prm (pts ! k)) / real (min 100 (length pts))"
  by (simp add: deviation_def deviation_loop_sum lessThan_atLeast0)

lemma finalScore_mono: "u \<le> v \<Longrightarrow> finalScore u r \<le> finalScore v r"
  unfolding finalScore_def by (intro max.mono min.mono order_refl add_right_mono)

section \<open>The reference spiral of the canvas\<close>

lemma cos_sin_three_half_pi: "cos (3 * pi / 2) = 0" "sin (3 * pi / 2) = - 1"
proof -
  have e: "3 * pi / 2 = 3 / 2 * pi" by simp
  show "cos (3 * pi / 2) = 0" by (simp only: e cos_3over2_pi)
  show "sin (3 * pi / 2) = - 1" by (simp only: e sin_3over2_pi)
qed

lemma drawReferenceSpiral_400:
  "drawReferenceSpiral 400 400 = \<lparr>a = 0, b = 70 / (3 * pi)\<rparr>"
  by (simp add: drawReferenceSpiral_def Let_def)

lemma canvas_trace_points:
  "canvas_trace =
     [\<lparr>x = 200, y = 200, t = 0\<rparr>, \<lparr>x = 200, y = 200 + 35 / 3, t = 250\<rparr>,
      \<lparr>x = 200 - 70 / 3, y = 200, t = 500\<rparr>, \<lparr>x = 200, y = 200 - 35, t = 750\<rparr>,
      \<lparr>x = 200 + 140 / 3, y = 200, t = 1000\<rparr>]"
  by (simp add: canvas_trace_def on_canvas_spiral_def referenceSpiralPoint_def
      drawReferenceSpiral_400 Let_def cos_sin_three_half_pi)

lemma point_deviation_first_quadrant:
  assumes "0 < x p" "0 < y p" "a prm = 0" "0 \<le> b prm"
  shows "sqrt ((x p)\<^sup>2 + (y p)\<^sup>2) - b prm * (pi / 2) \<le> point_deviation prm p"
proof -
  have "atan2 (y p) (x p) = arctan (y p / x p)"
    using assms by (simp add: atan2_def)
  then have "atan2 (y p) (x p) \<le> pi / 2"
    using arctan_ubound [of "y p / x p"] by simp
  then have "b prm * atan2 (y p) (x p) \<le> b prm * (pi / 2)"
    using assms by (intro mult_left_mono) simp_all
  then show ?thesis
    using assms by (simp add: point_deviation_def)
qed

lemma canvas_point_deviation:
  assumes "p \<in> set canvas_trace"
  shows "565 / 3 \<le> point_deviation (drawReferenceSpiral 400 400) p"
proof -
  let ?prm = "drawReferenceSpiral 400 400"
  have prm: "a ?prm = 0" "0 \<le> b ?prm" "b ?prm * (pi / 2) = 35 / 3"
    by (simp_all add: drawReferenceSpiral_400)
  from assms have pos: "0 < x p" "0 < y p" and one: "x p = 200 \<or> y p = 200"
    by (auto simp add: canvas_trace_points)
  from one have "200 \<le> sqrt ((x p)\<^sup>2 + (y p)\<^sup>2)"
    by (auto intro!: real_le_rsqrt)
  with point_deviation_first_quadrant [OF pos prm(1,2)] prm(3)
  show ?thesis by simp
qed

lemma quarter_turn_trace_deviation:
  "deviation quarter_turn_trace unit_params = pi / 2"
  by (simp add: deviation_take quarter_turn_trace_def unit_params_def point_deviation_def
      referenceSpiralPoint_def Let_def atan2_def cos_sin_three_half_pi real_sqrt_mult)

section \<open>The duplicated trace\<close>

lemma sqrt_136900: "sqrt 136900 = 370"
  using real_sqrt_abs [of 370] by simp

lemma duplicated_trace_nth:
  "k < 10 \<Longrightarrow> duplicated_trace ! k = \<lparr>x = 120, y = 350, t = 0\<rparr>"
  by (simp add: duplicated_trace_def)

lemma duplicated_trace_nth_minus:
  "k < 10 \<Longrightarrow> duplicated_trace ! (k - j) = \<lparr>x = 120, y = 350, t = 0\<rparr>"
  by (simp add: duplicated_trace_nth less_imp_diff_less)

section \<open>Overflow on the smoothness path\<close>


lemma js_add_NaN [simp]: "js_add NaN v = NaN" "js_add u NaN = NaN"
  by (cases u; simp)+

lemma js_div_NaN [simp]: "js_div NaN v = NaN"
  by simp

lemma Math_min_NaN [simp]: "Math_min u NaN = NaN" "Math_max u NaN = NaN"
  by (cases u; simp)+

section \<open>The smoothness label of the report\<close>

text \<open>
  The report's label comes from a value of its own: the differences whose first segment
  has positive length, summed and divided by the number of points. On the sample trace
  it is 5/3 (label Excellent) where the scorer's average variation is 5.
\<close>

lemma calculateSmoothness_loop_exit:
  "\<not> i < length pts \<Longrightarrow> calculateSmoothness_loop pts i v = v"
  by (subst calculateSmoothness_loop.simps) simp

lemma calculateSmoothness_loop_step:
  "i < length pts \<Longrightarrow> calculateSmoothness_loop pts i v =
     calculateSmoothness_loop pts (Suc i)
       (v + (if 0 < point_distance (pts ! (i - 2)) (pts ! (i - 1))
             then \<bar>point_distance (pts ! (i - 1)) (pts ! i)
                    - point_distance (pts ! (i - 2)) (pts ! (i - 1))\<bar>
             else 0))"
  by (subst calculateSmoothness_loop.simps)
     (simp add: Let_def point_distance_def power2_eq_square)

lemma calculateSmoothness_loop_sum:
  "calculateSmoothness_loop pts i v =
     v + (\<Sum>k = i..<length pts.
            if 0 < point_distance (pts ! (k - 2)) (pts ! (k - 1))
            then \<bar>point_distance (pts ! (k - 1)) (pts ! k)
                   - point_distance (pts ! (k - 2)) (pts ! (k - 1))\<bar>
            else 0)"
proof (induction n \<equiv> "length pts - i" arbitrary: i v)
  case 0
  then have "\<not> i < length pts" by simp
  then show ?case by (simp add: calculateSmoothness_loop_exit)
next
  case (Suc n)
  then have lt: "i < length pts" and n: "n = length pts - Suc i" by simp_all
  have split: "{i..<length pts} = insert i {Suc i..<length pts}"
    using lt by auto
  from Suc.hyps(1) [OF n] show ?case
    by (simp add: calculateSmoothness_loop_step [OF lt] split)
qed

lemma calculateSmoothness_sample:
  "calculateSmoothness sample_trace = ''Excellent''"
  by (simp add: calculateSmoothness_def calculateSmoothness_loop_sum Let_def
      sample_trace_def point_distance_def sqrt_25 sqrt_100)

section \<open>Classification boundaries\<close>

text \<open>
  C1. The classification of a score changes exactly at 0.3, 1.0 and 2.0: below 0.3 it is
  Normal, from 0.3 up to (not including) 1.0 it is Mild, from 1.0 up to (not including)
  2.0 it is Moderate, and from 2.0 on it is Severe. The score 0.299999 is Normal and the
  score 0.3 is Mild.
\<close>

theorem getSeverityClassification_boundaries:
  "(s < 0.3 \<longrightarrow> getSeverityClassification s = ''Normal'')
   \<and> (0.3 \<le> s \<and> s < 1.0 \<longrightarrow> getSeverityClassification s = ''Mild'')
   \<and> (1.0 \<le> s \<and> s < 2.0 \<longrightarrow> getSeverityClassification s = ''Moderate'')
   \<and> (2.0 \<le> s \<longrightarrow> getSeverityClassification s = ''Severe'')
   \<and> getSeverityClassification 0.299999 = ''Normal''
   \<and> getSeverityClassification 0.3 = ''Mild''"
  by (simp add: getSeverityClassification_def)

theorem getSeverityClassification_boundaries_witness:
  "(0.1::real) < 0.3 \<and> getSeverityClassification 0.1 = ''Normal''
   \<and> (0.3::real) \<le> 0.5 \<and> (0.5::real) < 1.0 \<and> getSeverityClassification 0.5 = ''Mild''
   \<and> (1.0::real) \<le> 1.5 \<and> (1.5::real) < 2.0 \<and> getSeverityClassification 1.5 = ''Moderate''
   \<and> (2.0::real) \<le> 2.5 \<and> getSeverityClassification 2.5 = ''Severe''"
  using getSeverityClassification_boundaries [of "0.1"]
        getSeverityClassification_boundaries [of "0.5"]
        getSeverityClassification_boundaries [of "1.5"]
        getSeverityClassification_boundaries [of "2.5"]
  by simp

section \<open>The score and the weighted mean\<close>

text \<open>
  C2, as stated, fails. The claim takes the severity score to be the weighted sum of
  the z-scores over the sum of the absolute weights. For a patient who reports a movement
  disorder, one sample at the origin and a draw of 0.5, both capped metrics are 0, so the
  weighted mean is 0 whatever the weights; the scorer returns 0.3.
\<close>

theorem severity_score_not_weighted_mean_counterexample:
  "severity_score (projr (calculateDemoScore env_mid (Some patient_yes) origin_trace
       (Some flat_params)))
   \<noteq> spec_severity_score (demo_z origin_trace flat_params) demo_weights"
  by (simp add: calc_origin_yes origin_result_def spec_severity_score_demo
      deviation_origin baseScore_def smoothnessScore_def deviationScore_def)
     (simp add: origin_trace_def avgVariation_single)

text \<open>
  C2, amended. The demo scorer takes no z-score table and no weight table. Only its base
  score is the weighted mean of the specification, over its two capped metrics with the
  weights 1 and 1; the severity score is that base score plus 0.3 when the patient
  reports a movement disorder, plus \<open>(random - 0.5) * 0.4\<close>, clamped to the
  interval from 0 to 3.
\<close>

theorem severity_score_formula:
  "calculateDemoScore env (Some info) pts (Some prm) = Inr r \<Longrightarrow>
     severity_score r =
       max 0 (min 3 (spec_severity_score (demo_z pts prm) demo_weights
                      + (if hasMovementDisorder info = ''yes'' then 0.3 else 0)
                      + (Math_random env - 0.5) * 0.4))"
  by (auto simp add: calculateDemoScore_def Let_def spec_severity_score_demo finalScore_def
      adjustedScore_def randomFactor_def split: if_splits)

theorem severity_score_formula_witness:
  "calculateDemoScore env_mid (Some patient_yes) sample_trace (Some flat_params)
     = Inr sample_result_yes
   \<and> severity_score sample_result_yes =
       max 0 (min 3 (spec_severity_score (demo_z sample_trace flat_params) demo_weights
                      + 0.3 + (0.5 - 0.5) * 0.4))"
  using calc_sample_yes severity_score_formula [OF calc_sample_yes]
  by (simp add: patient_yes_def env_mid_def)

section \<open>Dependence on the random draw and the clock\<close>

text \<open>
  C3, as stated, fails. The same patient, trace and spiral parameters scored with the
  draws 0.5 and 0.75 give the severity scores 0 and 0.1.
\<close>

theorem scoring_depends_on_random_draw_counterexample:
  "severity_score (projr (calculateDemoScore env_mid (Some patient_no) origin_trace
       (Some flat_params)))
   \<noteq> severity_score (projr (calculateDemoScore env_high (Some patient_no) origin_trace
       (Some flat_params)))"
  by (simp add: calc_origin_no calc_origin_high origin_result_def)

text \<open>
  C3, amended. The feature table of the result is a function of the patient data, the
  trace and the spiral parameters alone: two runs give the same features (or the same
  error) whatever the clock and the random draw. The severity score depends on the random
  draw as well: two runs with the same draw give the same severity score, whatever the
  clock.
\<close>

theorem features_fixed_score_fixed_by_draw:
  "map_sum id features (calculateDemoScore env1 info pts prm)
     = map_sum id features (calculateDemoScore env2 info pts prm)
   \<and> (Math_random env1 = Math_random env2 \<longrightarrow>
        map_sum id severity_score (calculateDemoScore env1 info pts prm)
          = map_sum id severity_score (calculateDemoScore env2 info pts prm))"
  by (simp add: calculateDemoScore_def Let_def randomFactor_def)

theorem features_fixed_score_fixed_by_draw_witness:
  "Math_random env_mid = Math_random env_later \<and> Date_now env_mid \<noteq> Date_now env_later
   \<and> map_sum id severity_score
        (calculateDemoScore env_mid (Some patient_yes) sample_trace (Some flat_params))
      = map_sum id severity_score
        (calculateDemoScore env_later (Some patient_yes) sample_trace (Some flat_params))"
  using features_fixed_score_fixed_by_draw
    [of env_mid "Some patient_yes" sample_trace "Some flat_params" env_later]
  by (simp add: env_mid_def env_later_def)

section \<open>The deviation from the spiral\<close>

text \<open>
  C4. The claim takes the radial deviation about the centre of the reference spiral, so
  that a trace lying exactly on the spiral has deviation 0. The scorer measures about the
  point \<open>(a, a)\<close> instead. On a 400 by 400 canvas the spiral is drawn about
  \<open>(200, 200)\<close> with \<open>a = 0\<close>: for five points of that spiral, a quarter turn apart,
  the scorer's deviation is above 188 and its deviation score is the cap 2.
\<close>

theorem canvas_spiral_trace_deviation:
  "188 < deviation canvas_trace (drawReferenceSpiral 400 400)
   \<and> deviationScore (deviation canvas_trace (drawReferenceSpiral 400 400)) = 2"
proof -
  let ?prm = "drawReferenceSpiral 400 400"
  have "sum_list (map (\<lambda>p. 565 / 3) canvas_trace)
          \<le> sum_list (map (point_deviation ?prm) canvas_trace)"
    by (intro sum_list_mono canvas_point_deviation)
  moreover have "length canvas_trace = 5" "take 100 canvas_trace = canvas_trace"
    by (simp_all add: canvas_trace_def)
  ultimately have "565 / 3 \<le> deviation canvas_trace ?prm"
    by (simp add: deviation_take sum_list_triv)
  then show ?thesis by (simp add: deviationScore_def)
qed

section \<open>Traces that are refused\<close>

text \<open>
  C5, as stated, fails. A trace of one point repeated 10 times is scored: the outcome is
  a result, not an error, and all 10 points are counted.
\<close>

theorem duplicated_point_is_scored_counterexample:
  "\<not> isl (calculateDemoScore env_mid (Some patient_no) duplicated_trace (Some flat_params))
   \<and> Total_points (metrics (features (projr
        (calculateDemoScore env_mid (Some patient_no) duplicated_trace (Some flat_params)))))
      = 10"
  by (simp add: calculateDemoScore_def Let_def duplicated_trace_def)

text \<open>
  C5, amended. The demo scorer has no cleaning step. It fails, with the message
  "Missing patient data, spiral points, or spiral parameters" and no score, when the
  patient data or the spiral parameters are missing or the trace is empty, and only then:
  every non-empty trace is scored on its raw points as they are. The point count is the
  length of the trace and the total time is the \<open>t\<close> of its last point; the average
  variation and the average distance are sums over all consecutive segments of the raw
  trace, divided by \<open>max 1 (n - 2)\<close> and \<open>max 1 (n - 1)\<close>; the deviation is the mean
  of the per-point term of the deviation loop over the first \<open>min 100 n\<close> raw points;
  and the severity score is the clamped sum computed from these.
\<close>

theorem calculateDemoScore_scores_raw_trace:
  "(info = None \<or> pts = [] \<or> prm = None \<longrightarrow>
      calculateDemoScore env info pts prm
        = Inl ''Missing patient data, spiral points, or spiral parameters'')
   \<and> (pts \<noteq> [] \<longrightarrow>
        calculateDemoScore env (Some patient) pts (Some params) =
          (let n = length pts;
               segment = (\<lambda>i. point_distance (pts ! (i - 1)) (pts ! i));
               variation = (\<Sum>i = 2..<n. \<bar>segment i - segment (i - 1)\<bar>)
                             / of_int (max 1 (int n - 2));
               distance = (\<Sum>i = 1..<n. segment i) / of_int (max 1 (int n - 1));
               dev = (\<Sum>k<min 100 n. point_deviation params (pts ! k)) / real (min 100 n);
               score = max 0 (min 3 ((min (variation / 10) 2 + min (dev / 50) 2) / 2
                         + (if hasMovementDisorder patient = ''yes'' then 0.3 else 0)
                         + (Math_random env - 0.5) * 0.4))
           in Inr \<lparr> spiral_id = Date_now env,
                    severity_score = score,
                    classification = ''tremor_score_demo'',
                    features = \<lparr> metrics = \<lparr>
                      Total_points = n,
                      Total_time_ms = t (last pts),
                      Average_variation = toFixed2 variation,
                      Average_distance = toFixed2 distance,
                      Spiral_deviation = toFixed2 dev \<rparr> \<rparr> \<rparr>))"
proof (intro conjI impI)
  assume "info = None \<or> pts = [] \<or> prm = None"
  then show "calculateDemoScore env info pts prm
        = Inl ''Missing patient data, spiral points, or spiral parameters''"
    by (auto simp add: calculateDemoScore_def)
next
  assume ne: "pts \<noteq> []"
  have av: "avgVariation pts =
      (\<Sum>i = 2..<length pts.
          \<bar>point_distance (pts ! (i - 1)) (pts ! i)
            - point_distance (pts ! (i - 1 - 1)) (pts ! (i - 1))\<bar>)
        / of_int (max 1 (int (length pts) - 2))"
    by (simp add: avgVariation_def smoothness_loop_from_one numeral_2_eq_2)
  have ad: "avgDistance pts =
      (\<Sum>i = 1..<length pts. point_distance (pts ! (i - 1)) (pts ! i))
        / of_int (max 1 (int (length pts) - 1))"
    by (simp add: avgDistance_def smoothness_loop_from_one)
  show "calculateDemoScore env (Some patient) pts (Some params) =
          (let n = length pts;
               segment = (\<lambda>i. point_distance (pts ! (i - 1)) (pts ! i));
               variation = (\<Sum>i = 2..<n. \<bar>segment i - segment (i - 1)\<bar>)
                             / of_int (max 1 (int n - 2));
               distance = (\<Sum>i = 1..<n. segment i) / of_int (max 1 (int n - 1));
               dev = (\<Sum>k<min 100 n. point_deviation params (pts ! k)) / real (min 100 n);
               score = max 0 (min 3 ((min (variation / 10) 2 + min (dev / 50) 2) / 2
                         + (if hasMovementDisorder patient = ''yes'' then 0.3 else 0)
                         + (Math_random env - 0.5) * 0.4))
           in Inr \<lparr> spiral_id = Date_now env,
                    severity_score = score,
                    classification = ''tremor_score_demo'',
                    features = \<lparr> metrics = \<lparr>
                      Total_points = n,
                      Total_time_ms = t (last pts),
                      Average_variation = toFixed2 variation,
                      Average_distance = toFixed2 distance,
                      Spiral_deviation = toFixed2 dev \<rparr> \<rparr> \<rparr>)"
    unfolding Let_def calculateDemoScore_Inr [OF ne] av [symmetric] ad [symmetric]
      deviation_index_sum [symmetric]
    by (simp add: finalScore_def adjustedScore_def baseScore_def smoothnessScore_def
        deviationScore_def randomFactor_def)
qed

theorem calculateDemoScore_scores_raw_trace_witness:
  "calculateDemoScore env_mid (Some patient_no) [] (Some flat_params)
     = Inl ''Missing patient data, spiral points, or spiral parameters''
   \<and> duplicated_trace \<noteq> []
   \<and> calculateDemoScore env_mid (Some patient_no) duplicated_trace (Some flat_params)
     = Inr duplicated_result"
proof -
  have ne: "duplicated_trace \<noteq> []" and len: "length duplicated_trace = 10"
    and lst: "last duplicated_trace = \<lparr>x = 120, y = 350, t = 0\<rparr>"
    by (simp_all add: duplicated_trace_def)
  have fail: "calculateDemoScore env_mid (Some patient_no) [] (Some flat_params)
     = Inl ''Missing patient data, spiral points, or spiral parameters''"
    using calculateDemoScore_scores_raw_trace
      [of "Some patient_no" "[]" "Some flat_params" env_mid]
    by simp
  have seg: "(\<Sum>i = 1..<10.
      point_distance (duplicated_trace ! (i - 1)) (duplicated_trace ! i)) = 0"
    by (rule sum.neutral)
       (simp add: duplicated_trace_nth duplicated_trace_nth_minus point_distance_def)
  have var: "(\<Sum>i = 2..<10.
      \<bar>point_distance (duplicated_trace ! (i - 1)) (duplicated_trace ! i)
        - point_distance (duplicated_trace ! (i - 1 - 1)) (duplicated_trace ! (i - 1))\<bar>) = 0"
    by (rule sum.neutral)
       (simp add: duplicated_trace_nth duplicated_trace_nth_minus point_distance_def)
  have "(\<Sum>k<10. point_deviation flat_params (duplicated_trace ! k)) = (\<Sum>k<(10::nat). 370)"
    by (rule sum.cong)
       (simp_all add: duplicated_trace_nth point_deviation_def flat_params_def sqrt_136900)
  then have dev: "(\<Sum>k<10. point_deviation flat_params (duplicated_trace ! k)) = 3700"
    by simp
  from calculateDemoScore_scores_raw_trace
      [of "Some patient_no" duplicated_trace "Some flat_params" env_mid patient_no flat_params]
    ne
  have "calculateDemoScore env_mid (Some patient_no) duplicated_trace (Some flat_params)
     = Inr duplicated_result"
    unfolding Let_def len lst seg var
    by (simp add: dev toFixed2_def env_mid_def patient_no_def duplicated_result_def)
  with fail ne show ?thesis by simp
qed

section \<open>The range of the score\<close>


section \<open>The average variation\<close>

text \<open>
  C7. For a trace of at least 3 points, the average variation of the scorer is the sum
  over \<open>i = 2, ..., n - 1\<close> of the absolute difference between the length of the
  segment ending at point \<open>i\<close> and the length of the segment before it, divided by
  \<open>n - 2\<close>.
\<close>

theorem avgVariation_mean_abs_difference:
  "3 \<le> length pts \<Longrightarrow>
     avgVariation pts =
       (\<Sum>i = 2..<length pts.
           \<bar>point_distance (pts ! (i - 1)) (pts ! i)
             - point_distance (pts ! (i - 2)) (pts ! (i - 1))\<bar>)
         / real (length pts - 2)"
proof -
  assume n: "3 \<le> length pts"
  then have "max 1 (int (length pts) - 2) = int (length pts - 2)" by simp
  then show ?thesis
    by (simp add: avgVariation_def smoothness_loop_from_one)
qed

theorem avgVariation_mean_abs_difference_witness:
  "3 \<le> length sample_trace \<and> avgVariation sample_trace = 5"
proof -
  have n: "3 \<le> length sample_trace" by (simp add: sample_trace_def)
  from avgVariation_mean_abs_difference [OF n] n show ?thesis
    by (simp add: sample_trace_def point_distance_def sqrt_25 sqrt_100)
qed

section \<open>Monotonicity in the deviation\<close>

text \<open>
  C8. Two runs with the same patient data, clock and random draw, on traces with the
  same average variation: if the deviation of the second is at least that of the first,
  so is its severity score.
\<close>

theorem severity_monotone_in_deviation:
  "calculateDemoScore env (Some info) pts1 (Some prm1) = Inr r1 \<Longrightarrow>
   calculateDemoScore env (Some info) pts2 (Some prm2) = Inr r2 \<Longrightarrow>
   avgVariation pts1 = avgVariation pts2 \<Longrightarrow>
   deviation pts1 prm1 \<le> deviation pts2 prm2 \<Longrightarrow>
     severity_score r1 \<le> severity_score r2"
proof -
  assume c1: "calculateDemoScore env (Some info) pts1 (Some prm1) = Inr r1"
    and c2: "calculateDemoScore env (Some info) pts2 (Some prm2) = Inr r2"
    and av: "avgVariation pts1 = avgVariation pts2"
    and dv: "deviation pts1 prm1 \<le> deviation pts2 prm2"
  from c1 have ne1: "pts1 \<noteq> []"
    by (auto simp add: calculateDemoScore_def)
  from c2 have ne2: "pts2 \<noteq> []"
    by (auto simp add: calculateDemoScore_def)
  have "deviationScore (deviation pts1 prm1) \<le> deviationScore (deviation pts2 prm2)"
    using dv by (simp add: deviationScore_def min_def)
  then have "baseScore (smoothnessScore (avgVariation pts1)) (deviationScore (deviation pts1 prm1))
      \<le> baseScore (smoothnessScore (avgVariation pts2)) (deviationScore (deviation pts2 prm2))"
    by (simp add: av baseScore_def)
  then have "adjustedScore info
        (baseScore (smoothnessScore (avgVariation pts1)) (deviationScore (deviation pts1 prm1)))
      \<le> adjustedScore info
        (baseScore (smoothnessScore (avgVariation pts2)) (deviationScore (deviation pts2 prm2)))"
    by (simp add: adjustedScore_def)
  then have "finalScore
          (adjustedScore info (baseScore (smoothnessScore (avgVariation pts1))
             (deviationScore (deviation pts1 prm1)))) (randomFactor env)
        \<le> finalScore
          (adjustedScore info (baseScore (smoothnessScore (avgVariation pts2))
             (deviationScore (deviation pts2 prm2)))) (randomFactor env)"
    by (rule finalScore_mono)
  moreover from c1 have "severity_score r1 = finalScore
          (adjustedScore info (baseScore (smoothnessScore (avgVariation pts1))
             (deviationScore (deviation pts1 prm1)))) (randomFactor env)"
    by (auto simp add: calculateDemoScore_Inr [OF ne1])
  moreover from c2 have "severity_score r2 = finalScore
          (adjustedScore info (baseScore (smoothnessScore (avgVariation pts2))
             (deviationScore (deviation pts2 prm2)))) (randomFactor env)"
    by (auto simp add: calculateDemoScore_Inr [OF ne2])
  ultimately show ?thesis by simp
qed

theorem severity_monotone_in_deviation_witness:
  "calculateDemoScore env_mid (Some patient_no) origin_trace (Some flat_params)
     = Inr (origin_result 0)
   \<and> calculateDemoScore env_mid (Some patient_no) offset_trace (Some flat_params)
     = Inr offset_result
   \<and> avgVariation origin_trace = avgVariation offset_trace
   \<and> deviation origin_trace flat_params < deviation offset_trace flat_params
   \<and> severity_score (origin_result 0) \<le> severity_score offset_result"
proof -
  have av: "avgVariation origin_trace = avgVariation offset_trace"
    by (simp add: origin_trace_def offset_trace_def avgVariation_single)
  have dv: "deviation origin_trace flat_params \<le> deviation offset_trace flat_params"
    by (simp add: deviation_origin deviation_offset)
  from severity_monotone_in_deviation [OF calc_origin_no calc_offset_no av dv]
  show ?thesis
    by (simp add: calc_origin_no calc_offset_no av deviation_origin deviation_offset)
qed

section \<open>The questionnaire in the score\<close>

text \<open>
  C9. For the same trace, spiral parameters, clock and random draw, the score before
  clamping of a patient who answers "yes" to the movement-disorder question is that of a
  patient who answers "no" plus 0.3; the severity scores are the two values clamped to
  the interval from 0 to 3. (On the sample input the two scores are 0 and 0.3, classified
  Normal and Mild.)
\<close>

theorem movement_disorder_adds_0_3:
  "hasMovementDisorder info_yes = ''yes'' \<Longrightarrow>
   hasMovementDisorder info_no = ''no'' \<Longrightarrow>
   calculateDemoScore env (Some info_yes) pts (Some prm) = Inr r_yes \<Longrightarrow>
   calculateDemoScore env (Some info_no) pts (Some prm) = Inr r_no \<Longrightarrow>
     severity_score r_no =
       max 0 (min 3 (baseScore (smoothnessScore (avgVariation pts))
                       (deviationScore (deviation pts prm)) + randomFactor env))
     \<and> severity_score r_yes =
       max 0 (min 3 (baseScore (smoothnessScore (avgVariation pts))
                       (deviationScore (deviation pts prm)) + randomFactor env + 0.3))"
  by (auto simp add: calculateDemoScore_def Let_def finalScore_def adjustedScore_def
      add.commute add.left_commute split: if_splits)

theorem movement_disorder_adds_0_3_witness:
  "hasMovementDisorder patient_yes = ''yes'' \<and> hasMovementDisorder patient_no = ''no''
   \<and> calculateDemoScore env_mid (Some patient_yes) origin_trace (Some flat_params)
       = Inr (origin_result 0.3)
   \<and> calculateDemoScore env_mid (Some patient_no) origin_trace (Some flat_params)
       = Inr (origin_result 0)
   \<and> severity_score (origin_result 0) = max 0 (min 3 0)
   \<and> severity_score (origin_result 0.3) = max 0 (min 3 (0 + 0.3))
   \<and> getSeverityClassification (severity_score (origin_result 0)) = ''Normal''
   \<and> getSeverityClassification (severity_score (origin_result 0.3)) = ''Mild''"
proof -
  have y: "hasMovementDisorder patient_yes = ''yes''" by (simp add: patient_yes_def)
  have n: "hasMovementDisorder patient_no = ''no''" by (simp add: patient_no_def)
  have z: "baseScore (smoothnessScore (avgVariation origin_trace))
             (deviationScore (deviation origin_trace flat_params)) + randomFactor env_mid = 0"
    by (simp add: deviation_origin baseScore_def smoothnessScore_def deviationScore_def
        randomFactor_def env_mid_def) (simp add: origin_trace_def avgVariation_single)
  from movement_disorder_adds_0_3 [OF y n calc_origin_yes calc_origin_no]
  show ?thesis
    by (simp add: y n z calc_origin_yes calc_origin_no getSeverityClassification_def)
qed

section \<open>The first hundred points\<close>

text \<open>
  C10. The deviation of a trace is the deviation of its first \<open>min 100 n\<close> points.
  Two traces of at least 100 points with the same first 100 points have the same
  deviation, and the same "Spiral deviation" entry in their results.
\<close>

theorem deviation_first_100_points:
  "deviation pts prm = deviation (take (min 100 (length pts)) pts) prm
   \<and> (100 \<le> length pts1 \<and> 100 \<le> length pts2 \<and> take 100 pts1 = take 100 pts2 \<longrightarrow>
        deviation pts1 prm = deviation pts2 prm
        \<and> map_sum id (\<lambda>r. Spiral_deviation (metrics (features r)))
            (calculateDemoScore env info pts1 (Some prm))
          = map_sum id (\<lambda>r. Spiral_deviation (metrics (features r)))
            (calculateDemoScore env info pts2 (Some prm)))"
proof (intro conjI impI)
  show "deviation pts prm = deviation (take (min 100 (length pts)) pts) prm"
    by (simp add: deviation_take min_def)
next
  assume h: "100 \<le> length pts1 \<and> 100 \<le> length pts2 \<and> take 100 pts1 = take 100 pts2"
  then show d: "deviation pts1 prm = deviation pts2 prm"
    by (simp add: deviation_take)
  from h have "pts1 \<noteq> []" "pts2 \<noteq> []" by auto
  then show "map_sum id (\<lambda>r. Spiral_deviation (metrics (features r)))
            (calculateDemoScore env info pts1 (Some prm))
          = map_sum id (\<lambda>r. Spiral_deviation (metrics (features r)))
            (calculateDemoScore env info pts2 (Some prm))"
    by (simp add: calculateDemoScore_def Let_def d split: option.splits)
qed

theorem deviation_first_100_points_witness:
  "100 \<le> length (long_trace \<lparr>x = 0, y = 0, t = 1700\<rparr>)
   \<and> 100 \<le> length (long_trace \<lparr>x = 500, y = 500, t = 1700\<rparr>)
   \<and> take 100 (long_trace \<lparr>x = 0, y = 0, t = 1700\<rparr>)
       = take 100 (long_trace \<lparr>x = 500, y = 500, t = 1700\<rparr>)
   \<and> long_trace \<lparr>x = 0, y = 0, t = 1700\<rparr> \<noteq> long_trace \<lparr>x = 500, y = 500, t = 1700\<rparr>
   \<and> deviation (long_trace \<lparr>x = 0, y = 0, t = 1700\<rparr>) flat_params
       = deviation (long_trace \<lparr>x = 500, y = 500, t = 1700\<rparr>) flat_params"
  using deviation_first_100_points
    [of _ flat_params "long_trace \<lparr>x = 0, y = 0, t = 1700\<rparr>"
        "long_trace \<lparr>x = 500, y = 500, t = 1700\<rparr>"]
  by (simp add: long_trace_def)

end
